theory Spec2Isabelle
  imports Main
begin

section \<open>The pyHS100 command line entry point: host, alias and device resolution\<close>

text \<open>
  The theory embeds \<^verbatim>\<open>src/pyHS100/cli.py\<close>: the group callback \<^verbatim>\<open>cli\<close>,
  the \<^verbatim>\<open>discover\<close> command and \<^verbatim>\<open>find_host_from_alias\<close>.

  The classes \<^verbatim>\<open>Discover\<close>, \<^verbatim>\<open>SmartDevice\<close>, \<^verbatim>\<open>SmartPlug\<close>, \<^verbatim>\<open>SmartBulb\<close>
  and \<^verbatim>\<open>SmartStrip\<close> are imported by the file and not part of it. What they answer is
  a parameter of every function below (the record \<open>collab\<close>); what the file does with
  them (which calls it issues, in which order, with which arguments) is recorded in
  the \<open>world\<close> that every function threads through.
\<close>

subsection \<open>Data\<close>

text \<open>An exception raised by a collaborator; the file itself catches none.\<close>

datatype error = TransportError | SmartDeviceException

text \<open>The class of a device object, and the object: its class and the host it talks to.\<close>

datatype device_class = SmartDevice | SmartPlug | SmartBulb | SmartStrip

record device =
  dev_class :: device_class
  dev_host :: string

text \<open>
  The collaborators.
  \<^item> \<open>discover_reply n target timeout\<close>: what the call number \<open>n\<close> (from 0) of
    \<^verbatim>\<open>Discover.discover(target, timeout)\<close> returns, as the \<^verbatim>\<open>items()\<close> of the
    dictionary in iteration order, or the exception it raises;
  \<^item> \<open>discover_raw_reply\<close>: the same with \<^verbatim>\<open>return_raw=True\<close>, where the values are
    the payloads and not device objects;
  \<^item> \<open>discover_single_reply host\<close>: \<^verbatim>\<open>Discover.discover_single(host)\<close>;
  \<^item> \<open>get_alias dev\<close>: \<^verbatim>\<open>dev.sync.get_alias()\<close>, a query sent to the device;
  \<^item> \<open>state_result dev\<close>: whether the queries of the \<^verbatim>\<open>state\<close> command on \<open>dev\<close>
    raise;
  \<^item> \<open>str_lower s\<close>: what the built-in \<^verbatim>\<open>s.lower()\<close> gives for a string \<open>s\<close> that holds
    a character outside ASCII, by the Unicode case mapping of the Python runtime.
\<close>

record collab =
  discover_reply :: "nat \<Rightarrow> string \<Rightarrow> int \<Rightarrow> error + (string \<times> device) list"
  discover_raw_reply :: "nat \<Rightarrow> string \<Rightarrow> int \<Rightarrow> error + (string \<times> string) list"
  discover_single_reply :: "string \<Rightarrow> error + device"
  get_alias :: "device \<Rightarrow> error + string"
  state_result :: "device \<Rightarrow> error + unit"
  str_lower :: "string \<Rightarrow> string"

text \<open>
  The lines written with \<^verbatim>\<open>click.echo\<close> and \<^verbatim>\<open>print\<close>, one constructor for each
  format string of the file, holding the values formatted into it.
\<close>

datatype msg =
    Alias_given string             \<comment> \<open>Alias is given, using discovery to find host %s\<close>
  | Found_hostname string          \<comment> \<open>Found hostname is {}\<close>
  | No_device_found string         \<comment> \<open>No device with name {} found\<close>
  | No_host_given                  \<comment> \<open>No host name given, trying discovery..\<close>
  | No_kind_given                  \<comment> \<open>No --strip nor --bulb nor --plug given, discovering..\<close>
  | Unable_to_detect               \<comment> \<open>Unable to detect type, use --strip or --bulb or --plug!\<close>
  | Discovering int                \<comment> \<open>Discovering devices for %s seconds\<close>
  | Raw_reply string               \<comment> \<open>click.echo(dev) under dump_raw\<close>
  | Blank                          \<comment> \<open>print()\<close>
  | Trying_to_discover string int int  \<comment> \<open>Trying to discover %s using %s attempts of %s seconds\<close>
  | Attempt int int                \<comment> \<open>Attempt %s of %s\<close>

datatype level = DEBUG | INFO

text \<open>
  Everything the file does to the outside: the logging configuration, the lines
  echoed, the calls of \<^verbatim>\<open>Discover.discover\<close> (target, timeout, return_raw), the
  calls of \<^verbatim>\<open>Discover.discover_single\<close> (host) and the devices the \<^verbatim>\<open>state\<close>
  command was invoked on, each in the order of the calls.
\<close>

record world =
  logging_level :: "level option"
  echoed :: "msg list"
  discover_calls :: "(string \<times> int \<times> bool) list"
  single_calls :: "string list"
  state_calls :: "device list"

text \<open>The click context of the group: the subcommand named on the command line and \<^verbatim>\<open>ctx.obj\<close>.\<close>

record click_context =
  invoked_subcommand :: "string option"
  obj :: "device option"

text \<open>What \<^verbatim>\<open>discover\<close> returns: the items found, devices or raw payloads.\<close>

datatype found = Found_devs "(string \<times> device) list" | Found_raw "(string \<times> string) list"

subsection \<open>Strings\<close>

text \<open>
  A Python string is held as the bytes of its UTF-8 form. \<^verbatim>\<open>str.isascii()\<close>: no byte
  has its top bit set.
\<close>

definition isascii :: "string \<Rightarrow> bool" where
  "isascii s = list_all (\<lambda>c. \<not> digit7 c) s"

text \<open>
  \<^verbatim>\<open>str.lower()\<close>. On an ASCII string each of the letters A to Z moves to its
  lower-case letter and every other character stays. On a string with a character
  outside ASCII the result is the runtime's (\<open>str_lower\<close>).
\<close>

definition ascii_uppercase :: string where
  "ascii_uppercase = ''ABCDEFGHIJKLMNOPQRSTUVWXYZ''"

definition ascii_lowercase :: string where
  "ascii_lowercase = ''abcdefghijklmnopqrstuvwxyz''"

definition lower_char :: "char \<Rightarrow> char" where
  "lower_char c =
     (case map_of (zip ascii_uppercase ascii_lowercase) c of None \<Rightarrow> c | Some l \<Rightarrow> l)"

definition lower :: "collab \<Rightarrow> string \<Rightarrow> string" where
  "lower net s = (if isascii s then map lower_char s else str_lower net s)"

subsection \<open>Effects\<close>

text \<open>\<^verbatim>\<open>logging.basicConfig(level=l)\<close> configures the root logger unless it is configured already.\<close>

definition basicConfig :: "level \<Rightarrow> world \<Rightarrow> world" where
  "basicConfig l w =
     (case logging_level w of None \<Rightarrow> w\<lparr>logging_level := Some l\<rparr> | Some _ \<Rightarrow> w)"

definition echo :: "msg \<Rightarrow> world \<Rightarrow> world" where
  "echo m w = w\<lparr>echoed := echoed w @ [m]\<rparr>"

text \<open>\<^verbatim>\<open>Discover.discover(target=target, timeout=timeout).items()\<close>: one discovery round.\<close>

definition Discover_discover ::
  "collab \<Rightarrow> string \<Rightarrow> int \<Rightarrow> world \<Rightarrow> (error + (string \<times> device) list) \<times> world" where
  "Discover_discover net target timeout w =
     (discover_reply net (length (discover_calls w)) target timeout,
      w\<lparr>discover_calls := discover_calls w @ [(target, timeout, False)]\<rparr>)"

definition Discover_discover_raw ::
  "collab \<Rightarrow> string \<Rightarrow> int \<Rightarrow> world \<Rightarrow> (error + (string \<times> string) list) \<times> world" where
  "Discover_discover_raw net target timeout w =
     (discover_raw_reply net (length (discover_calls w)) target timeout,
      w\<lparr>discover_calls := discover_calls w @ [(target, timeout, True)]\<rparr>)"

text \<open>\<^verbatim>\<open>asyncio.run(Discover.discover_single(host))\<close>: one probe sent to \<open>host\<close> alone.\<close>

definition Discover_discover_single ::
  "collab \<Rightarrow> string \<Rightarrow> world \<Rightarrow> (error + device) \<times> world" where
  "Discover_discover_single net h w =
     (discover_single_reply net h, w\<lparr>single_calls := single_calls w @ [h]\<rparr>)"

text \<open>
  \<^verbatim>\<open>ctx.invoke(state)\<close> on the device in \<^verbatim>\<open>ctx.obj\<close>. The body of the command
  (lines 170 to 205) queries the device and prints; it calls neither discovery nor
  assigns \<^verbatim>\<open>ctx.obj\<close>. It is kept as one event with the outcome the collaborator gives.
\<close>

definition state :: "collab \<Rightarrow> device \<Rightarrow> world \<Rightarrow> (error + unit) \<times> world" where
  "state net dev w = (state_result net dev, w\<lparr>state_calls := state_calls w @ [dev]\<rparr>)"

subsection \<open>\<^verbatim>\<open>find_host_from_alias\<close> (lines 142 to 156)\<close>

text \<open>
  The inner loop, lines 152 to 155: the first device in iteration order whose alias,
  lowered, equals the lowered requested alias ends the function with its host.
\<close>

fun scan_found_devs :: "collab \<Rightarrow> string \<Rightarrow> (string \<times> device) list \<Rightarrow> error + string option" where
  "scan_found_devs net alias [] = Inr None"
| "scan_found_devs net alias ((ip, dev) # rest) =
     (case get_alias net dev of
        Inl e \<Rightarrow> Inl e
      | Inr a \<Rightarrow>
          if lower net a = lower net alias then Inr (Some (dev_host dev))
          else scan_found_devs net alias rest)"

text \<open>The outer loop, lines 149 to 155, over the values of \<^verbatim>\<open>range(1, attempts)\<close> still to come.\<close>

fun attempt_loop ::
  "collab \<Rightarrow> string \<Rightarrow> string \<Rightarrow> int \<Rightarrow> int \<Rightarrow> int list \<Rightarrow> world \<Rightarrow> (error + string option) \<times> world" where
  "attempt_loop net alias target timeout attempts [] w = (Inr None, w)"
| "attempt_loop net alias target timeout attempts (attempt # rest) w =
     (case Discover_discover net target timeout (echo (Attempt attempt attempts) w) of
        (Inl e, w') \<Rightarrow> (Inl e, w')
      | (Inr found_devs, w') \<Rightarrow>
          (case scan_found_devs net alias found_devs of
             Inl e \<Rightarrow> (Inl e, w')
           | Inr (Some h) \<Rightarrow> (Inr (Some h), w')
           | Inr None \<Rightarrow> attempt_loop net alias target timeout attempts rest w'))"

text \<open>\<^verbatim>\<open>range(1, attempts)\<close> is the list \<open>1, \<dots>, attempts - 1\<close>, empty when \<open>attempts \<le> 1\<close>.\<close>

definition find_host_from_alias ::
  "collab \<Rightarrow> string \<Rightarrow> string \<Rightarrow> int \<Rightarrow> int \<Rightarrow> world \<Rightarrow> (error + string option) \<times> world" where
  "find_host_from_alias net alias target timeout attempts w =
     attempt_loop net alias target timeout attempts [1..attempts - 1]
       (echo (Trying_to_discover alias attempts timeout) w)"

subsection \<open>The \<^verbatim>\<open>discover\<close> command (lines 123 to 139)\<close>

text \<open>
  The loop of lines 131 to 137 without \<^verbatim>\<open>dump_raw\<close>: the device is stored in the
  \<^verbatim>\<open>obj\<close> of the command's own context (click gives an invoked command a context of its
  own, whose parent is the group's), \<^verbatim>\<open>state\<close> runs on it and an empty line is printed.
\<close>

fun show_found_devs :: "collab \<Rightarrow> (string \<times> device) list \<Rightarrow> world \<Rightarrow> (error + unit) \<times> world" where
  "show_found_devs net [] w = (Inr (), w)"
| "show_found_devs net ((ip, dev) # rest) w =
     (case state net dev w of
        (Inl e, w') \<Rightarrow> (Inl e, w')
      | (Inr _, w') \<Rightarrow> show_found_devs net rest (echo Blank w'))"

text \<open>The same loop under \<^verbatim>\<open>dump_raw\<close>: every payload is echoed.\<close>

fun show_found_raw :: "(string \<times> string) list \<Rightarrow> world \<Rightarrow> world" where
  "show_found_raw [] w = w"
| "show_found_raw ((ip, dev) # rest) w = show_found_raw rest (echo (Raw_reply dev) w)"

definition discover ::
  "collab \<Rightarrow> string \<Rightarrow> int \<Rightarrow> bool \<Rightarrow> bool \<Rightarrow> world \<Rightarrow> (error + found) \<times> world" where
  "discover net target timeout discover_only dump_raw w =
     (if dump_raw then
        (case Discover_discover_raw net target timeout (echo (Discovering timeout) w) of
           (Inl e, w') \<Rightarrow> (Inl e, w')
         | (Inr found_devs, w') \<Rightarrow>
             (Inr (Found_raw found_devs),
              if \<not> discover_only then show_found_raw found_devs w' else w'))
      else
        (case Discover_discover net target timeout (echo (Discovering timeout) w) of
           (Inl e, w') \<Rightarrow> (Inl e, w')
         | (Inr found_devs, w') \<Rightarrow>
             if \<not> discover_only then
               (case show_found_devs net found_devs w' of
                  (Inl e, w'') \<Rightarrow> (Inl e, w'')
                | (Inr _, w'') \<Rightarrow> (Inr (Found_devs found_devs), w''))
             else (Inr (Found_devs found_devs), w')))"

subsection \<open>The group callback \<^verbatim>\<open>cli\<close> (lines 53 to 95)\<close>

text \<open>
  Lines 80 to 91: the device object for a known host. Without a kind flag one
  \<^verbatim>\<open>discover_single\<close> is sent; with one, the class is instantiated on the host. The
  last branch is the source's \<^verbatim>\<open>else\<close>, which returns without a device.
\<close>

definition cli_device ::
  "collab \<Rightarrow> string \<Rightarrow> bool \<Rightarrow> bool \<Rightarrow> bool \<Rightarrow> world \<Rightarrow> (error + device option) \<times> world" where
  "cli_device net h bulb plug strip w =
     (if \<not> bulb \<and> \<not> plug \<and> \<not> strip then
        (case Discover_discover_single net h (echo No_kind_given w) of
           (Inl e, w') \<Rightarrow> (Inl e, w')
         | (Inr dev, w') \<Rightarrow> (Inr (Some dev), w'))
      else if bulb then (Inr (Some \<lparr>dev_class = SmartBulb, dev_host = h\<rparr>), w)
      else if plug then (Inr (Some \<lparr>dev_class = SmartPlug, dev_host = h\<rparr>), w)
      else if strip then (Inr (Some \<lparr>dev_class = SmartStrip, dev_host = h\<rparr>), w)
      else (Inr None, echo Unable_to_detect w))"

text \<open>
  Lines 75 to 95, with the host settled: without a host the \<^verbatim>\<open>discover\<close> command is
  invoked with its defaults (timeout 3, neither \<^verbatim>\<open>discover_only\<close> nor \<^verbatim>\<open>dump_raw\<close>)
  and the callback returns; with a host the device is stored in \<^verbatim>\<open>ctx.obj\<close> and, when
  no subcommand was named, \<^verbatim>\<open>state\<close> is invoked.
\<close>

definition cli_resolve ::
  "collab \<Rightarrow> click_context \<Rightarrow> string option \<Rightarrow> string \<Rightarrow> bool \<Rightarrow> bool \<Rightarrow> bool \<Rightarrow> world
     \<Rightarrow> (error + unit) \<times> click_context \<times> world" where
  "cli_resolve net ctx host target bulb plug strip w =
     (case host of
        None \<Rightarrow>
          (case discover net target 3 False False (echo No_host_given w) of
             (Inl e, w') \<Rightarrow> (Inl e, ctx, w')
           | (Inr _, w') \<Rightarrow> (Inr (), ctx, w'))
      | Some h \<Rightarrow>
          (case cli_device net h bulb plug strip w of
             (Inl e, w') \<Rightarrow> (Inl e, ctx, w')
           | (Inr None, w') \<Rightarrow> (Inr (), ctx, w')
           | (Inr (Some dev), w') \<Rightarrow>
               (if invoked_subcommand ctx = None then
                  (case state net dev w' of (r, w'') \<Rightarrow> (r, ctx\<lparr>obj := Some dev\<rparr>, w''))
                else (Inr (), ctx\<lparr>obj := Some dev\<rparr>, w'))))"

text \<open>
  The callback. \<^verbatim>\<open>if host:\<close> on line 69 is Python's truth of an optional string:
  neither \<^verbatim>\<open>None\<close> nor empty. \<^verbatim>\<open>find_host_from_alias(alias=alias, target=target)\<close>
  runs with the defaults \<^verbatim>\<open>timeout=1, attempts=3\<close>.
\<close>

definition cli ::
  "collab \<Rightarrow> click_context \<Rightarrow> string option \<Rightarrow> string option \<Rightarrow> string option \<Rightarrow> string
     \<Rightarrow> bool \<Rightarrow> bool \<Rightarrow> bool \<Rightarrow> bool \<Rightarrow> world \<Rightarrow> (error + unit) \<times> click_context \<times> world" where
  "cli net ctx ip host alias target debug bulb plug strip w0 =
     (let w = basicConfig (if debug then DEBUG else INFO) w0 in
      if invoked_subcommand ctx = Some ''discover'' then (Inr (), ctx, w)
      else
        let host1 = (if ip \<noteq> None \<and> host = None then ip else host) in
        case (alias, host1) of
          (Some a, None) \<Rightarrow>
            (case find_host_from_alias net a target 1 3 (echo (Alias_given a) w) of
               (Inl e, w') \<Rightarrow> (Inl e, ctx, w')
             | (Inr None, w') \<Rightarrow> (Inr (), ctx, echo (No_device_found a) w')
             | (Inr (Some h), w') \<Rightarrow>
                 if h \<noteq> [] then
                   cli_resolve net ctx (Some h) target bulb plug strip (echo (Found_hostname h) w')
                 else (Inr (), ctx, echo (No_device_found a) w'))
        | _ \<Rightarrow> cli_resolve net ctx host1 target bulb plug strip w)"

subsection \<open>Predicates used to state the properties\<close>

text \<open>A device answers the alias query with the requested alias, up to case.\<close>

definition alias_matches :: "collab \<Rightarrow> string \<Rightarrow> device \<Rightarrow> bool" where
  "alias_matches net alias dev =
     (case get_alias net dev of Inl e \<Rightarrow> False | Inr a \<Rightarrow> lower net a = lower net alias)"

text \<open>A device answers the alias query with another alias.\<close>

definition alias_differs :: "collab \<Rightarrow> string \<Rightarrow> device \<Rightarrow> bool" where
  "alias_differs net alias dev =
     (case get_alias net dev of Inl e \<Rightarrow> False | Inr a \<Rightarrow> lower net a \<noteq> lower net alias)"

text \<open>
  Call number \<open>n\<close> of \<^verbatim>\<open>Discover.discover\<close> returns, and every device it returns
  answers with another alias: the round holds no match.
\<close>

definition no_match_round :: "collab \<Rightarrow> string \<Rightarrow> string \<Rightarrow> int \<Rightarrow> nat \<Rightarrow> bool" where
  "no_match_round net alias target timeout n =
     (case discover_reply net n target timeout of
        Inl e \<Rightarrow> False
      | Inr devs \<Rightarrow> list_all (\<lambda>(ip, dev). alias_differs net alias dev) devs)"





text \<open>A device answers the alias query at all.\<close>

definition alias_answered :: "collab \<Rightarrow> device \<Rightarrow> bool" where
  "alias_answered net dev = (case get_alias net dev of Inl e \<Rightarrow> False | Inr a \<Rightarrow> True)"

subsection \<open>A network to run the functions on\<close>

text \<open>
  Two devices answer every discovery round: a plug at 10.0.0.5 with the alias
  Living Room and a bulb at 10.0.0.9 with the alias Bedroom. Every string of the
  runs below is ASCII, so \<open>str_lower\<close> is never consulted.
\<close>

definition plug5 :: device where
  "plug5 = \<lparr>dev_class = SmartPlug, dev_host = ''10.0.0.5''\<rparr>"

definition bulb9 :: device where
  "bulb9 = \<lparr>dev_class = SmartBulb, dev_host = ''10.0.0.9''\<rparr>"

definition home_alias :: "device \<Rightarrow> error + string" where
  "home_alias dev = (if dev_host dev = ''10.0.0.5'' then Inr ''Living Room'' else Inr ''Bedroom'')"

definition home_single :: "string \<Rightarrow> error + device" where
  "home_single h =
     (if h = ''10.0.0.5'' then Inr plug5 else if h = ''10.0.0.9'' then Inr bulb9
      else Inl TransportError)"

definition home_net :: collab where
  "home_net =
     \<lparr>discover_reply = (\<lambda>n target timeout. Inr [(''10.0.0.5'', plug5), (''10.0.0.9'', bulb9)]),
      discover_raw_reply = (\<lambda>n target timeout. Inr [(''10.0.0.5'', ''HS110''), (''10.0.0.9'', ''LB130'')]),
      discover_single_reply = home_single,
      get_alias = home_alias,
      state_result = (\<lambda>dev. Inr ()),
      str_lower = (\<lambda>s. s)\<rparr>"

text \<open>
  A misconfigured network: every device answers with the alias Lamp, and every
  discovery round returns the given items in the given order.
\<close>

definition twins_net :: "(string \<times> device) list \<Rightarrow> collab" where
  "twins_net items =
     \<lparr>discover_reply = (\<lambda>n target timeout. Inr items),
      discover_raw_reply = (\<lambda>n target timeout. Inr []),
      discover_single_reply = home_single,
      get_alias = (\<lambda>dev. Inr ''Lamp''),
      state_result = (\<lambda>dev. Inr ()),
      str_lower = (\<lambda>s. s)\<rparr>"

text \<open>The home network with other items returned by every discovery round.\<close>

definition static_net :: "(string \<times> device) list \<Rightarrow> collab" where
  "static_net items = home_net\<lparr>discover_reply := (\<lambda>n target timeout. Inr items)\<rparr>"

text \<open>
  Contexts of three command lines: the device command \<^verbatim>\<open>sysinfo\<close>, no subcommand,
  and \<^verbatim>\<open>discover\<close>; \<^verbatim>\<open>ctx.obj\<close> is unset when the callback starts.
\<close>

definition ctx_sysinfo :: click_context where
  "ctx_sysinfo = \<lparr>invoked_subcommand = Some ''sysinfo'', obj = None\<rparr>"

definition ctx_none :: click_context where
  "ctx_none = \<lparr>invoked_subcommand = None, obj = None\<rparr>"

definition ctx_discover :: click_context where
  "ctx_discover = \<lparr>invoked_subcommand = Some ''discover'', obj = None\<rparr>"

definition broadcast :: string where
  "broadcast = ''255.255.255.255''"

definition world0 :: world where
  "world0 = \<lparr>logging_level = None, echoed = [], discover_calls = [], single_calls = [], state_calls = []\<rparr>"

section \<open>Properties\<close>

subsection \<open>Lowering and equality up to case\<close>











subsection \<open>The loops of \<^verbatim>\<open>find_host_from_alias\<close>\<close>

lemma scan_found_devs_none:
  "list_all (\<lambda>(ip, dev). alias_differs net alias dev) devs \<Longrightarrow>
   scan_found_devs net alias devs = Inr None"
  by (induction devs) (auto simp: alias_differs_def split: sum.splits)


lemma scan_found_devs_filter:
  "list_all (\<lambda>(ip, dev). alias_answered net dev) devs \<Longrightarrow>
   scan_found_devs net alias devs =
     Inr (case filter (\<lambda>(ip, dev). alias_matches net alias dev) devs of
            [] \<Rightarrow> None | m # ms \<Rightarrow> Some (dev_host (snd m)))"
  by (induction devs) (auto simp: alias_answered_def alias_matches_def split: sum.splits)

text \<open>
  Rounds without a match: the loop consumes the whole list of attempt numbers, one
  discovery call for each, and returns \<^verbatim>\<open>None\<close>.
\<close>

lemma attempt_loop_none:
  "(\<forall>j < length as. no_match_round net alias target timeout (length (discover_calls w) + j)) \<Longrightarrow>
   attempt_loop net alias target timeout attempts as w =
     (Inr None, w\<lparr>echoed := echoed w @ map (\<lambda>a. Attempt a attempts) as,
                   discover_calls := discover_calls w @ replicate (length as) (target, timeout, False)\<rparr>)"
proof (induction as arbitrary: w)
  case Nil
  then show ?case by simp
next
  case (Cons a as)
  let ?w' = "snd (Discover_discover net target timeout (echo (Attempt a attempts) w))"
  from Cons.prems have r0: "no_match_round net alias target timeout (length (discover_calls w))"
    by force
  then obtain devs where devs: "discover_reply net (length (discover_calls w)) target timeout = Inr devs"
    and nm: "list_all (\<lambda>(ip, dev). alias_differs net alias dev) devs"
    by (auto simp: no_match_round_def split: sum.splits)
  have len: "length (discover_calls ?w') = Suc (length (discover_calls w))"
    by (simp add: Discover_discover_def echo_def)
  have "\<forall>j < length as. no_match_round net alias target timeout (length (discover_calls ?w') + j)"
  proof (intro allI impI)
    fix j assume "j < length as"
    then have "Suc j < length (a # as)" by simp
    with Cons.prems have "no_match_round net alias target timeout (length (discover_calls w) + Suc j)"
      by blast
    then show "no_match_round net alias target timeout (length (discover_calls ?w') + j)"
      by (simp add: len)
  qed
  from Cons.IH[OF this] devs scan_found_devs_none[OF nm] show ?case
    by (simp add: Discover_discover_def echo_def replicate_app_Cons_same)
qed

text \<open>
  A match in the round of index \<open>k\<close> of the list, none before: the loop returns the
  host the scan of that round gives, after \<open>k + 1\<close> discovery calls.
\<close>

lemma attempt_loop_found:
  "k < length as \<Longrightarrow>
   (\<forall>j < k. no_match_round net alias target timeout (length (discover_calls w) + j)) \<Longrightarrow>
   discover_reply net (length (discover_calls w) + k) target timeout = Inr devs \<Longrightarrow>
   scan_found_devs net alias devs = Inr (Some h) \<Longrightarrow>
   fst (attempt_loop net alias target timeout attempts as w) = Inr (Some h) \<and>
   discover_calls (snd (attempt_loop net alias target timeout attempts as w)) =
     discover_calls w @ replicate (Suc k) (target, timeout, False)"
proof (induction as arbitrary: k w)
  case Nil
  then show ?case by simp
next
  case (Cons a as)
  let ?w' = "snd (Discover_discover net target timeout (echo (Attempt a attempts) w))"
  have len: "length (discover_calls ?w') = Suc (length (discover_calls w))"
    by (simp add: Discover_discover_def echo_def)
  show ?case
  proof (cases k)
    case 0
    with Cons.prems show ?thesis
      by (simp add: Discover_discover_def echo_def)
  next
    case (Suc k')
    with Cons.prems have r0: "no_match_round net alias target timeout (length (discover_calls w))"
      by force
    then obtain devs0 where devs0: "discover_reply net (length (discover_calls w)) target timeout = Inr devs0"
      and nm: "list_all (\<lambda>(ip, dev). alias_differs net alias dev) devs0"
      by (auto simp: no_match_round_def split: sum.splits)
    have k': "k' < length as" using Cons.prems(1) Suc by simp
    have earlier: "\<forall>j < k'. no_match_round net alias target timeout (length (discover_calls ?w') + j)"
    proof (intro allI impI)
      fix j assume "j < k'"
      then have "Suc j < k" using Suc by simp
      with Cons.prems(2) have "no_match_round net alias target timeout (length (discover_calls w) + Suc j)"
        by blast
      then show "no_match_round net alias target timeout (length (discover_calls ?w') + j)"
        by (simp add: len)
    qed
    have hit: "discover_reply net (length (discover_calls ?w') + k') target timeout = Inr devs"
      using Cons.prems(3) Suc by (simp add: len)
    from Cons.IH[OF k' earlier hit Cons.prems(4)] devs0 scan_found_devs_none[OF nm] Suc show ?thesis
      by (simp add: Discover_discover_def echo_def replicate_app_Cons_same)
  qed
qed

text \<open>
  The same for the function: \<^verbatim>\<open>range(1, attempts)\<close> holds \<open>attempts - 1\<close> numbers, so
  \<open>attempts - 1\<close> rounds without a match end the function with \<^verbatim>\<open>None\<close>.
\<close>

lemma find_host_from_alias_none:
  assumes "\<forall>j. int j < attempts - 1 \<longrightarrow>
             no_match_round net alias target timeout (length (discover_calls w) + j)"
  shows "find_host_from_alias net alias target timeout attempts w =
     (Inr None,
      w\<lparr>echoed := echoed w @ Trying_to_discover alias attempts timeout #
                    map (\<lambda>a. Attempt a attempts) [1..attempts - 1],
        discover_calls := discover_calls w @ replicate (nat (attempts - 1)) (target, timeout, False)\<rparr>)"
proof -
  let ?w = "echo (Trying_to_discover alias attempts timeout) w"
  have "\<forall>j < length [1..attempts - 1].
          no_match_round net alias target timeout (length (discover_calls ?w) + j)"
    using assms by (auto simp: echo_def)
  from attempt_loop_none[OF this, of attempts] show ?thesis
    by (simp add: find_host_from_alias_def echo_def)
qed

lemma find_host_from_alias_found:
  assumes "int k + 1 < attempts"
    and "\<forall>j < k. no_match_round net alias target timeout (length (discover_calls w) + j)"
    and "discover_reply net (length (discover_calls w) + k) target timeout = Inr devs"
    and "scan_found_devs net alias devs = Inr (Some h)"
  shows "fst (find_host_from_alias net alias target timeout attempts w) = Inr (Some h) \<and>
     discover_calls (snd (find_host_from_alias net alias target timeout attempts w)) =
       discover_calls w @ replicate (Suc k) (target, timeout, False)"
proof -
  let ?w = "echo (Trying_to_discover alias attempts timeout) w"
  have k: "k < length [1..attempts - 1]" using assms(1) by simp
  have e: "\<forall>j < k. no_match_round net alias target timeout (length (discover_calls ?w) + j)"
    using assms(2) by (simp add: echo_def)
  have r: "discover_reply net (length (discover_calls ?w) + k) target timeout = Inr devs"
    using assms(3) by (simp add: echo_def)
  from attempt_loop_found[OF k e r assms(4), of attempts] show ?thesis
    by (simp add: find_host_from_alias_def echo_def)
qed

subsection \<open>The effects of \<^verbatim>\<open>basicConfig\<close> and \<^verbatim>\<open>discover\<close>\<close>

lemma basicConfig_fields:
  "echoed (basicConfig l w) = echoed w" "discover_calls (basicConfig l w) = discover_calls w"
  "single_calls (basicConfig l w) = single_calls w" "state_calls (basicConfig l w) = state_calls w"
  by (simp_all add: basicConfig_def split: option.splits)

lemma show_found_devs_all:
  "list_all (\<lambda>(ip, dev). state_result net dev = Inr ()) devs \<Longrightarrow>
   show_found_devs net devs w =
     (Inr (), w\<lparr>echoed := echoed w @ replicate (length devs) Blank,
                 state_calls := state_calls w @ map snd devs\<rparr>)"
proof (induction devs arbitrary: w)
  case Nil
  then show ?case by simp
next
  case (Cons x devs)
  obtain ip dev where x: "x = (ip, dev)" by (cases x)
  from Cons.prems x have ok: "state_result net dev = Inr ()"
    and rest: "list_all (\<lambda>(ip, dev). state_result net dev = Inr ()) devs" by simp_all
  from Cons.IH[OF rest] ok x show ?case
    by (simp add: state_def echo_def replicate_app_Cons_same)
qed

lemma discover_defaults:
  assumes "discover_reply net (length (discover_calls w)) target timeout = Inr devs"
    and "list_all (\<lambda>(ip, dev). state_result net dev = Inr ()) devs"
  shows "discover net target timeout False False w =
     (Inr (Found_devs devs),
      w\<lparr>echoed := echoed w @ Discovering timeout # replicate (length devs) Blank,
        discover_calls := discover_calls w @ [(target, timeout, False)],
        state_calls := state_calls w @ map snd devs\<rparr>)"
  using assms(1)
  by (simp add: discover_def Discover_discover_def echo_def show_found_devs_all[OF assms(2)])

lemma upto_1_2: "[1..(2::int)] = [1, 2]"
  by (simp add: upto.simps)

subsection \<open>Evaluation on the home network\<close>

lemma lower_nobody: "lower net ''nobody'' = ''nobody''"
  by (simp add: lower_def isascii_def lower_char_def ascii_uppercase_def ascii_lowercase_def)

lemma lower_Living_Room: "lower net ''Living Room'' = ''living room''"
  by (simp add: lower_def isascii_def lower_char_def ascii_uppercase_def ascii_lowercase_def)

lemma lower_living_room: "lower net ''living room'' = ''living room''"
  by (simp add: lower_def isascii_def lower_char_def ascii_uppercase_def ascii_lowercase_def)

lemma lower_Bedroom: "lower net ''Bedroom'' = ''bedroom''"
  by (simp add: lower_def isascii_def lower_char_def ascii_uppercase_def ascii_lowercase_def)

lemma home_no_match_nobody: "no_match_round home_net ''nobody'' target timeout n"
  by (simp add: no_match_round_def home_net_def alias_differs_def home_alias_def plug5_def
      bulb9_def lower_nobody lower_Living_Room lower_Bedroom)

subsection \<open>The attempt budget\<close>

text \<open>
  Claim C1: with an attempt budget \<open>N \<ge> 1\<close> and no round that ever matches, alias
  resolution performs exactly \<open>N\<close> discovery rounds and returns no address.
  The function run with \<^verbatim>\<open>attempts=2\<close> for an alias no device has: it announces two
  attempts, echoes \<^verbatim>\<open>Attempt 1 of 2\<close>, calls \<^verbatim>\<open>Discover.discover\<close> once and returns
  \<^verbatim>\<open>None\<close>. The second round is never run: \<^verbatim>\<open>range(1, attempts)\<close> stops at
  \<open>attempts - 1\<close> (in general, lemma \<open>find_host_from_alias_none\<close>).
\<close>

theorem find_host_from_alias_two_attempts_one_round:
  "find_host_from_alias home_net ''nobody'' broadcast 1 2 world0 =
     (Inr None,
      world0\<lparr>echoed := [Trying_to_discover ''nobody'' 2 1, Attempt 1 2],
             discover_calls := [(broadcast, 1, False)]\<rparr>)"
  using find_host_from_alias_none[of 2 home_net "''nobody''" broadcast 1 world0]
    home_no_match_nobody
  by (simp add: world0_def)

subsection \<open>Which device a round selects\<close>

text \<open>
  Claim C2, as stated: among several devices of a round that carry the requested
  alias, the one with the lowest address is selected, whatever the order of the replies.
  It fails: the same two replies in the two orders give two hosts, and in the first
  order the host returned, 10.0.0.9, is not the lowest.
\<close>

theorem find_host_from_alias_order_dependent:
  "fst (find_host_from_alias (twins_net [(''10.0.0.9'', bulb9), (''10.0.0.5'', plug5)])
          ''lamp'' broadcast 1 3 world0) = Inr (Some ''10.0.0.9'') \<and>
   fst (find_host_from_alias (twins_net [(''10.0.0.5'', plug5), (''10.0.0.9'', bulb9)])
          ''lamp'' broadcast 1 3 world0) = Inr (Some ''10.0.0.5'')"
  by (simp add: find_host_from_alias_def twins_net_def Discover_discover_def echo_def world0_def
      plug5_def bulb9_def lower_def isascii_def lower_char_def ascii_uppercase_def
      ascii_lowercase_def upto.simps)

text \<open>
  Claim C2, amended: in a round the loop runs (its number \<open>k + 1\<close> is below
  \<open>attempts\<close>), reached without an earlier match, whose devices all answer the alias
  query and of which one or more carry the requested alias, the host returned is that
  of the first such device in the iteration order of the round's items: the selection
  is a function of the ordered reply, not of the set of replies.
\<close>

theorem find_host_from_alias_first_in_iteration_order:
  assumes "int k + 1 < attempts"
    and "\<forall>j < k. no_match_round net alias target timeout (length (discover_calls w) + j)"
    and "discover_reply net (length (discover_calls w) + k) target timeout = Inr devs"
    and "list_all (\<lambda>(ip, dev). alias_answered net dev) devs"
    and "filter (\<lambda>(ip, dev). alias_matches net alias dev) devs = m # ms"
  shows "fst (find_host_from_alias net alias target timeout attempts w) =
           Inr (Some (dev_host (snd m)))"
proof -
  from scan_found_devs_filter[OF assms(4), of "alias"] assms(5)
  have "scan_found_devs net alias devs = Inr (Some (dev_host (snd m)))" by simp
  from find_host_from_alias_found[OF assms(1,2,3) this] show ?thesis by simp
qed

theorem find_host_from_alias_first_in_iteration_order_witness:
  "fst (find_host_from_alias (twins_net [(''10.0.0.9'', bulb9), (''10.0.0.5'', plug5)])
          ''lamp'' broadcast 1 3 world0) = Inr (Some (dev_host bulb9))"
  using find_host_from_alias_first_in_iteration_order[of 0 3
      "twins_net [(''10.0.0.9'', bulb9), (''10.0.0.5'', plug5)]" "''lamp''" broadcast 1 world0
      "[(''10.0.0.9'', bulb9), (''10.0.0.5'', plug5)]" "(''10.0.0.9'', bulb9)"
      "[(''10.0.0.5'', plug5)]"]
  by (simp add: twins_net_def alias_answered_def alias_matches_def world0_def
      lower_def isascii_def lower_char_def ascii_uppercase_def ascii_lowercase_def)

subsection \<open>Matching up to case\<close>



subsection \<open>No host and no alias\<close>

text \<open>
  Claim C4, as stated: without host and alias a discovery pass decides: one device
  resolves it, none is NotFound, several are surfaced as AmbiguousMatch.
  It fails: whether two devices answer, one or none, the callback returns normally
  and leaves \<^verbatim>\<open>ctx.obj\<close> unset; with two devices \<^verbatim>\<open>state\<close> has run on both.
\<close>

theorem cli_without_host_no_unique_resolution:
  "cli home_net ctx_sysinfo None None None broadcast False False False False world0 =
     (Inr (), ctx_sysinfo,
      world0\<lparr>logging_level := Some INFO,
             echoed := [No_host_given, Discovering 3, Blank, Blank],
             discover_calls := [(broadcast, 3, False)],
             state_calls := [plug5, bulb9]\<rparr>) \<and>
   cli (static_net [(''10.0.0.5'', plug5)]) ctx_sysinfo None None None broadcast
       False False False False world0 =
     (Inr (), ctx_sysinfo,
      world0\<lparr>logging_level := Some INFO,
             echoed := [No_host_given, Discovering 3, Blank],
             discover_calls := [(broadcast, 3, False)],
             state_calls := [plug5]\<rparr>) \<and>
   cli (static_net []) ctx_sysinfo None None None broadcast False False False False world0 =
     (Inr (), ctx_sysinfo,
      world0\<lparr>logging_level := Some INFO,
             echoed := [No_host_given, Discovering 3],
             discover_calls := [(broadcast, 3, False)]\<rparr>)"
  by (simp add: cli_def cli_resolve_def discover_def Discover_discover_def state_def echo_def
      basicConfig_def static_net_def home_net_def ctx_sysinfo_def world0_def)

text \<open>
  Claim C4, amended: without host, ip and alias (and a subcommand other than
  \<^verbatim>\<open>discover\<close>) the callback runs one discovery round on the broadcast target with
  timeout 3 and, the round returning \<open>devs\<close> and \<^verbatim>\<open>state\<close> raising on none of them,
  runs \<^verbatim>\<open>state\<close> on every device found, in iteration order, each followed by an empty
  line. It returns normally with the context as it was: no device is selected, however
  many answered.
\<close>

theorem cli_without_host_shows_every_device:
  assumes "invoked_subcommand ctx \<noteq> Some ''discover''"
    and "discover_reply net (length (discover_calls w)) target 3 = Inr devs"
    and "list_all (\<lambda>(ip, dev). state_result net dev = Inr ()) devs"
  shows "cli net ctx None None None target debug bulb plug strip w =
     (Inr (), ctx,
      (basicConfig (if debug then DEBUG else INFO) w)
        \<lparr>echoed := echoed w @ No_host_given # Discovering 3 # replicate (length devs) Blank,
         discover_calls := discover_calls w @ [(target, 3, False)],
         state_calls := state_calls w @ map snd devs\<rparr>)"
proof -
  let ?w = "echo No_host_given (basicConfig (if debug then DEBUG else INFO) w)"
  have "discover_reply net (length (discover_calls ?w)) target 3 = Inr devs"
    using assms(2) by (simp add: echo_def basicConfig_fields)
  from discover_defaults[OF this assms(3)] assms(1) show ?thesis
    by (simp add: cli_def cli_resolve_def Let_def echo_def basicConfig_fields)
qed

theorem cli_without_host_shows_every_device_witness:
  "cli home_net ctx_none None None None broadcast True False False False world0 =
     (Inr (), ctx_none,
      world0\<lparr>logging_level := Some DEBUG,
             echoed := [No_host_given, Discovering 3, Blank, Blank],
             discover_calls := [(broadcast, 3, False)],
             state_calls := [plug5, bulb9]\<rparr>)"
  using cli_without_host_shows_every_device[where ctx = ctx_none and net = home_net
      and w = world0 and target = broadcast
      and devs = "[(''10.0.0.5'', plug5), (''10.0.0.9'', bulb9)]"
      and debug = True and bulb = False and plug = False and strip = False]
  by (simp add: ctx_none_def home_net_def world0_def basicConfig_def)

subsection \<open>A known host\<close>

text \<open>
  Claim C5: for every host and kind flag, the device is built as an object of the
  class of the flag on that host (of the first of bulb, plug, strip that is set) and
  the world is as it was: lines 80 to 91 call nothing. For the callback as a whole,
  with the host given as host, or as ip when no host is given: that object is stored in
  \<^verbatim>\<open>ctx.obj\<close>, and neither \<^verbatim>\<open>Discover.discover\<close> nor
  \<^verbatim>\<open>Discover.discover_single\<close> is called.
\<close>

theorem cli_kind_flag_no_probe:
  assumes "invoked_subcommand ctx \<noteq> Some ''discover''"
    and "bulb \<or> plug \<or> strip"
    and "host = Some h \<or> (host = None \<and> ip = Some h)"
  shows "cli_device net h bulb plug strip w =
           (Inr (Some \<lparr>dev_class = (if bulb then SmartBulb else if plug then SmartPlug else SmartStrip),
                            dev_host = h\<rparr>), w) \<and>
         (case cli net ctx ip host alias target debug bulb plug strip w of
            (r, ctx', w') \<Rightarrow>
              obj ctx' =
                Some \<lparr>dev_class = (if bulb then SmartBulb else if plug then SmartPlug else SmartStrip),
                      dev_host = h\<rparr> \<and>
              discover_calls w' = discover_calls w \<and> single_calls w' = single_calls w)"
  using assms
  by (auto simp: cli_def cli_resolve_def cli_device_def state_def Let_def basicConfig_fields
      split: option.splits)

theorem cli_kind_flag_no_probe_witness:
  "(case cli home_net ctx_sysinfo None (Some ''10.0.0.9'') None broadcast False False False True world0 of
      (r, ctx', w') \<Rightarrow>
        obj ctx' = Some \<lparr>dev_class = SmartStrip, dev_host = ''10.0.0.9''\<rparr> \<and>
        discover_calls w' = [] \<and> single_calls w' = [])"
  using cli_kind_flag_no_probe[where ctx = ctx_sysinfo and bulb = False and plug = False
      and strip = True and host = "Some ''10.0.0.9''" and h = "''10.0.0.9''" and ip = None
      and net = home_net and target = broadcast and debug = False and w = world0, of None]
  by (simp add: ctx_sysinfo_def world0_def)

text \<open>
  Claim C6: with a host and no kind flag, lines 80 to 82 echo one line, issue exactly
  one \<^verbatim>\<open>Discover.discover_single\<close>, on that host, and give the object it returns.
  For the callback as a whole: one \<^verbatim>\<open>discover_single\<close> on the host and no
  \<^verbatim>\<open>Discover.discover\<close>; the object the probe returns, with the class it has, is
  stored in \<^verbatim>\<open>ctx.obj\<close>. When the probe raises, the exception leaves the callback
  and the context is as it was.
\<close>

theorem cli_auto_detect_single_probe:
  assumes "invoked_subcommand ctx \<noteq> Some ''discover''"
    and "\<not> bulb" and "\<not> plug" and "\<not> strip"
    and "host = Some h \<or> (host = None \<and> ip = Some h)"
  shows "cli_device net h bulb plug strip w =
           (case discover_single_reply net h of Inl e \<Rightarrow> Inl e | Inr dev \<Rightarrow> Inr (Some dev),
            w\<lparr>echoed := echoed w @ [No_kind_given], single_calls := single_calls w @ [h]\<rparr>) \<and>
         (case cli net ctx ip host alias target debug bulb plug strip w of
            (r, ctx', w') \<Rightarrow>
              single_calls w' = single_calls w @ [h] \<and> discover_calls w' = discover_calls w \<and>
              (case discover_single_reply net h of
                 Inr dev \<Rightarrow> obj ctx' = Some dev
               | Inl e \<Rightarrow> r = Inl e \<and> ctx' = ctx))"
  using assms
  by (auto simp: cli_def cli_resolve_def cli_device_def Discover_discover_single_def state_def
      echo_def Let_def basicConfig_fields split: option.splits sum.splits)

theorem cli_auto_detect_single_probe_witness:
  "(case cli home_net ctx_sysinfo None (Some ''10.0.0.9'') None broadcast False False False False world0 of
      (r, ctx', w') \<Rightarrow>
        single_calls w' = [''10.0.0.9''] \<and> discover_calls w' = [] \<and> obj ctx' = Some bulb9)"
  using cli_auto_detect_single_probe[where ctx = ctx_sysinfo and bulb = False and plug = False
      and strip = False and host = "Some ''10.0.0.9''" and h = "''10.0.0.9''" and ip = None
      and net = home_net and target = broadcast and debug = False and w = world0, of None]
  by (simp add: ctx_sysinfo_def world0_def home_net_def home_single_def)

subsection \<open>An alias no device has\<close>

text \<open>
  Claim C7: alias resolution that runs out of attempts without a match returns the
  absent value and raises nothing; the caller reports the miss and builds no device.
  First part: when each of the \<open>attempts - 1\<close> rounds of the loop returns and holds
  no match, \<^verbatim>\<open>find_host_from_alias\<close> returns \<^verbatim>\<open>None\<close>. Second part: called with
  an alias only, when the two rounds of its resolution hold no match, the callback
  echoes the miss last and returns normally; the context is as it was, and beyond the
  logging configuration, the lines echoed and the two discovery rounds the world is
  as it was: no \<^verbatim>\<open>discover_single\<close>, no \<^verbatim>\<open>state\<close>.
\<close>

theorem cli_alias_miss_reported:
  assumes "\<forall>j. int j < attempts - 1 \<longrightarrow>
             no_match_round net a target timeout (length (discover_calls w) + j)"
    and "\<forall>j < 2. no_match_round net a target 1 (length (discover_calls w0) + j)"
    and "invoked_subcommand ctx \<noteq> Some ''discover''"
  shows "fst (find_host_from_alias net a target timeout attempts w) = Inr None \<and>
     cli net ctx None None (Some a) target debug bulb plug strip w0 =
       (Inr (), ctx,
        (basicConfig (if debug then DEBUG else INFO) w0)
          \<lparr>echoed := echoed w0 @ [Alias_given a, Trying_to_discover a 3 1, Attempt 1 3, Attempt 2 3,
                                   No_device_found a],
           discover_calls := discover_calls w0 @ [(target, 1, False), (target, 1, False)]\<rparr>)"
proof -
  let ?w1 = "echo (Alias_given a) (basicConfig (if debug then DEBUG else INFO) w0)"
  have "\<forall>j. int j < 3 - 1 \<longrightarrow> no_match_round net a target 1 (length (discover_calls ?w1) + j)"
    using assms(2) by (simp add: echo_def basicConfig_fields)
  from find_host_from_alias_none[OF this]
  have "find_host_from_alias net a target 1 3 ?w1 =
     (Inr None,
      ?w1\<lparr>echoed := echoed ?w1 @ Trying_to_discover a 3 1 # map (\<lambda>x. Attempt x 3) [1..2],
        discover_calls := discover_calls ?w1 @ replicate 2 (target, 1, False)\<rparr>)"
    by simp
  then have "cli net ctx None None (Some a) target debug bulb plug strip w0 =
       (Inr (), ctx,
        (basicConfig (if debug then DEBUG else INFO) w0)
          \<lparr>echoed := echoed w0 @ [Alias_given a, Trying_to_discover a 3 1, Attempt 1 3, Attempt 2 3,
                                   No_device_found a],
           discover_calls := discover_calls w0 @ [(target, 1, False), (target, 1, False)]\<rparr>)"
    using assms(3)
    by (simp add: cli_def Let_def echo_def basicConfig_fields upto_1_2 numeral_2_eq_2)
  moreover have "fst (find_host_from_alias net a target timeout attempts w) = Inr None"
    using find_host_from_alias_none[OF assms(1)] by simp
  ultimately show ?thesis by simp
qed

theorem cli_alias_miss_reported_witness:
  "fst (find_host_from_alias home_net ''nobody'' broadcast 5 4 world0) = Inr None \<and>
   cli home_net ctx_sysinfo None None (Some ''nobody'') broadcast False True False False world0 =
     (Inr (), ctx_sysinfo,
      world0\<lparr>logging_level := Some INFO,
             echoed := [Alias_given ''nobody'', Trying_to_discover ''nobody'' 3 1, Attempt 1 3,
                        Attempt 2 3, No_device_found ''nobody''],
             discover_calls := [(broadcast, 1, False), (broadcast, 1, False)]\<rparr>)"
  using cli_alias_miss_reported[where attempts = 4 and net = home_net and a = "''nobody''"
      and target = broadcast and timeout = 5 and w = world0 and ?w0.0 = world0
      and ctx = ctx_sysinfo and debug = False and bulb = True and plug = False and strip = False]
  by (simp add: home_no_match_nobody ctx_sysinfo_def world0_def basicConfig_def)

subsection \<open>Precedence among the options\<close>

text \<open>
  Claim C8: with a host and an alias the host is used and the alias is not looked up;
  the ip option stands for the host when no host is given, and is ignored when one is.
  First part, whatever the alias is: with \<open>h\<close> the host given, or the ip given
  without a host, the callback calls \<^verbatim>\<open>Discover.discover\<close> not once, and the device
  is the one of \<open>h\<close>: with a kind flag an object of the flagged class on \<open>h\<close>, nothing
  echoed and nothing probed; without one the object that the one
  \<^verbatim>\<open>discover_single\<close> on \<open>h\<close> returns (\<^verbatim>\<open>ctx.obj\<close> stays as it was when the probe
  raises). Second part: the callback does with host and alias what it does with the
  host alone, with an ip and no host what it does with the ip as host, and with host
  and ip what it does with the host alone.
\<close>

theorem cli_host_precedence:
  assumes "invoked_subcommand ctx \<noteq> Some ''discover''"
    and "host = Some h \<or> (host = None \<and> ip = Some h)"
  shows "(case cli net ctx ip host alias target debug bulb plug strip w of
            (r, ctx', w') \<Rightarrow>
              discover_calls w' = discover_calls w \<and>
              (if \<not> bulb \<and> \<not> plug \<and> \<not> strip then
                 echoed w' = echoed w @ [No_kind_given] \<and>
                 single_calls w' = single_calls w @ [h] \<and>
                 obj ctx' = (case discover_single_reply net h of
                               Inl e \<Rightarrow> obj ctx | Inr dev \<Rightarrow> Some dev)
               else
                 echoed w' = echoed w \<and>
                 single_calls w' = single_calls w \<and>
                 obj ctx' =
                   Some \<lparr>dev_class = (if bulb then SmartBulb else if plug then SmartPlug
                                       else SmartStrip),
                         dev_host = h\<rparr>)) \<and>
   cli net ctx ip' (Some h') (Some a') target debug bulb plug strip w =
     cli net ctx ip' (Some h') None target debug bulb plug strip w \<and>
   discover_calls (snd (snd (cli net ctx ip' (Some h') (Some a') target debug bulb plug strip w))) =
     discover_calls w \<and>
   cli net ctx (Some i') None alias target debug bulb plug strip w =
     cli net ctx None (Some i') alias target debug bulb plug strip w \<and>
   cli net ctx (Some i') (Some h') alias target debug bulb plug strip w =
     cli net ctx None (Some h') alias target debug bulb plug strip w"
proof -
  have first: "(case cli net ctx ip host alias target debug bulb plug strip w of
            (r, ctx', w') \<Rightarrow>
              discover_calls w' = discover_calls w \<and>
              (if \<not> bulb \<and> \<not> plug \<and> \<not> strip then
                 echoed w' = echoed w @ [No_kind_given] \<and>
                 single_calls w' = single_calls w @ [h] \<and>
                 obj ctx' = (case discover_single_reply net h of
                               Inl e \<Rightarrow> obj ctx | Inr dev \<Rightarrow> Some dev)
               else
                 echoed w' = echoed w \<and>
                 single_calls w' = single_calls w \<and>
                 obj ctx' =
                   Some \<lparr>dev_class = (if bulb then SmartBulb else if plug then SmartPlug
                                       else SmartStrip),
                         dev_host = h\<rparr>))"
    using assms
    by (auto simp: cli_def cli_resolve_def cli_device_def Discover_discover_single_def state_def
        echo_def Let_def basicConfig_fields split: option.splits sum.splits)
  have second: "cli net ctx ip' (Some h') (Some a') target debug bulb plug strip w =
     cli net ctx ip' (Some h') None target debug bulb plug strip w \<and>
   discover_calls (snd (snd (cli net ctx ip' (Some h') (Some a') target debug bulb plug strip w))) =
     discover_calls w \<and>
   cli net ctx (Some i') None alias target debug bulb plug strip w =
     cli net ctx None (Some i') alias target debug bulb plug strip w \<and>
   cli net ctx (Some i') (Some h') alias target debug bulb plug strip w =
     cli net ctx None (Some h') alias target debug bulb plug strip w"
    by (auto simp: cli_def cli_resolve_def cli_device_def Discover_discover_single_def state_def
        echo_def Let_def basicConfig_fields split: option.splits sum.splits prod.splits)
  from first second show ?thesis by blast
qed

text \<open>
  Two runs on the home network. Host 10.0.0.9 with the bulb flag, beside an ip and
  an alias that both point to the plug at 10.0.0.5: a bulb on 10.0.0.9, no discovery.
  The ip 10.0.0.5 without host or flag, beside the alias of the bulb: one probe of
  10.0.0.5, which gives the plug, and no discovery round.
\<close>

theorem cli_host_precedence_witness:
  "(case cli home_net ctx_sysinfo (Some ''10.0.0.5'') (Some ''10.0.0.9'') (Some ''living room'')
          broadcast False True False False world0 of
      (r, ctx', w') \<Rightarrow>
        discover_calls w' = [] \<and> echoed w' = [] \<and> single_calls w' = [] \<and>
        obj ctx' = Some \<lparr>dev_class = SmartBulb, dev_host = ''10.0.0.9''\<rparr>) \<and>
   (case cli home_net ctx_sysinfo (Some ''10.0.0.5'') None (Some ''Bedroom'')
          broadcast False False False False world0 of
      (r, ctx', w') \<Rightarrow>
        discover_calls w' = [] \<and> echoed w' = [No_kind_given] \<and>
        single_calls w' = [''10.0.0.5''] \<and> obj ctx' = Some plug5)"
  using cli_host_precedence[where ctx = ctx_sysinfo and host = "Some ''10.0.0.9''"
      and h = "''10.0.0.9''" and ip = "Some ''10.0.0.5''" and net = home_net
      and target = broadcast and debug = False and bulb = True and plug = False and strip = False
      and w = world0, of "Some ''living room''", THEN conjunct1]
    cli_host_precedence[where ctx = ctx_sysinfo and host = None
      and h = "''10.0.0.5''" and ip = "Some ''10.0.0.5''" and net = home_net
      and target = broadcast and debug = False and bulb = False and plug = False and strip = False
      and w = world0, of "Some ''Bedroom''", THEN conjunct1]
  by (simp add: ctx_sysinfo_def world0_def home_net_def home_single_def case_prod_beta)

text \<open>
  Claim C9: with a host and two or three kind flags at once, bulb wins over plug and
  plug over strip; nothing is echoed, and the callback raises only what \<^verbatim>\<open>state\<close>
  raises when no subcommand was named.
\<close>

theorem cli_kind_flag_precedence:
  assumes "invoked_subcommand ctx \<noteq> Some ''discover''"
    and "(bulb \<and> plug) \<or> (bulb \<and> strip) \<or> (plug \<and> strip)"
    and "host = Some h \<or> (host = None \<and> ip = Some h)"
  shows "(case cli net ctx ip host alias target debug bulb plug strip w of
            (r, ctx', w') \<Rightarrow>
              obj ctx' = Some \<lparr>dev_class = (if bulb then SmartBulb else SmartPlug), dev_host = h\<rparr> \<and>
              echoed w' = echoed w \<and>
              r = (if invoked_subcommand ctx = None
                   then state_result net
                          \<lparr>dev_class = (if bulb then SmartBulb else SmartPlug), dev_host = h\<rparr>
                   else Inr ()))"
  using assms
  by (auto simp: cli_def cli_resolve_def cli_device_def state_def Let_def basicConfig_fields
      split: option.splits)

theorem cli_kind_flag_precedence_witness:
  "(case cli home_net ctx_none None (Some ''10.0.0.5'') None broadcast False False True True world0 of
      (r, ctx', w') \<Rightarrow>
        obj ctx' = Some \<lparr>dev_class = SmartPlug, dev_host = ''10.0.0.5''\<rparr> \<and> echoed w' = [] \<and>
        r = Inr ())"
  using cli_kind_flag_precedence[where ctx = ctx_none and bulb = False and plug = True
      and strip = True and host = "Some ''10.0.0.5''" and h = "''10.0.0.5''" and ip = None
      and net = home_net and target = broadcast and debug = False and w = world0, of None]
  by (simp add: ctx_none_def world0_def home_net_def)

subsection \<open>The \<^verbatim>\<open>discover\<close> subcommand\<close>

text \<open>
  Claim C10: when the subcommand is \<^verbatim>\<open>discover\<close> the callback returns after
  configuring logging, whatever host, ip, alias and kind flags are given: the context
  is as it was (\<^verbatim>\<open>ctx.obj\<close> is not assigned), nothing is echoed, no discovery call is
  issued and \<^verbatim>\<open>state\<close> is not invoked.
\<close>

theorem cli_discover_subcommand_returns:
  assumes "invoked_subcommand ctx = Some ''discover''"
  shows "cli net ctx ip host alias target debug bulb plug strip w =
           (Inr (), ctx, basicConfig (if debug then DEBUG else INFO) w) \<and>
         echoed (snd (snd (cli net ctx ip host alias target debug bulb plug strip w))) = echoed w \<and>
         discover_calls (snd (snd (cli net ctx ip host alias target debug bulb plug strip w))) =
           discover_calls w \<and>
         single_calls (snd (snd (cli net ctx ip host alias target debug bulb plug strip w))) =
           single_calls w \<and>
         state_calls (snd (snd (cli net ctx ip host alias target debug bulb plug strip w))) =
           state_calls w"
  using assms by (simp add: cli_def Let_def basicConfig_fields)

theorem cli_discover_subcommand_returns_witness:
  "cli home_net ctx_discover None (Some ''10.0.0.5'') (Some ''living room'') broadcast
       True True False False world0 =
     (Inr (), ctx_discover, world0\<lparr>logging_level := Some DEBUG\<rparr>)"
  using cli_discover_subcommand_returns[where ctx = ctx_discover and net = home_net and ip = None
      and host = "Some ''10.0.0.5''" and target = broadcast
      and debug = True and bulb = True and plug = False and strip = False and w = world0, of "Some ''living room''"]
  by (simp add: ctx_discover_def world0_def basicConfig_def)

end
